theory Spec2Isabelle
  imports Complex_Main
begin

section \<open>Python strings\<close>

text \<open>
  A Python \<open>str\<close> is modelled as a \<open>string\<close>: a list of characters with code points
  below 256. \<open>is_space\<close> is \<open>str.isspace\<close> on one character, which is also the class
  \<open>\s\<close> of the \<open>re\<close> module for a \<open>str\<close> pattern.
\<close>

definition is_space :: "char \<Rightarrow> bool" where
  "is_space c = (c \<in> set [CHR 0x09, CHR 0x0A, CHR 0x0B, CHR 0x0C, CHR 0x0D, CHR 0x1C,
                            CHR 0x1D, CHR 0x1E, CHR 0x1F, CHR 0x20, CHR 0x85, CHR 0xA0])"

definition startswith :: "string \<Rightarrow> string \<Rightarrow> bool" where
  "startswith s p = (take (length p) s = p)"


text \<open>\<open>sub in s\<close> for strings.\<close>

fun contains :: "string \<Rightarrow> string \<Rightarrow> bool" where
  "contains sub [] = (sub = [])"
| "contains sub (x # xs) = (startswith (x # xs) sub \<or> contains sub xs)"

text \<open>\<open>s.strip()\<close>.\<close>

definition strip :: "string \<Rightarrow> string" where
  "strip s = rev (dropWhile is_space (rev (dropWhile is_space s)))"

text \<open>\<open>s.replace(old, new)\<close>: every non-overlapping occurrence, left to right.\<close>

function replace :: "string \<Rightarrow> string \<Rightarrow> string \<Rightarrow> string" where
  "replace old new [] = (if old = [] then new else [])"
| "replace old new (x # xs) =
     (if old = [] then new @ x # replace old new xs
      else if startswith (x # xs) old then new @ replace old new (drop (length old) (x # xs))
      else x # replace old new xs)"
  by pat_completeness auto
termination
  by (relation "measure (\<lambda>(old, new, s). length s)") auto

text \<open>\<open>s.splitlines()\<close>: the line boundaries of \<open>str\<close> below code point 256.\<close>

definition is_linebreak :: "char \<Rightarrow> bool" where
  "is_linebreak c = (c \<in> set [CHR 0x0A, CHR 0x0B, CHR 0x0C, CHR 0x0D, CHR 0x1C, CHR 0x1D,
                                CHR 0x1E, CHR 0x85])"

fun splitlines_from :: "string \<Rightarrow> string \<Rightarrow> string list" where
  "splitlines_from cur [] = (if cur = [] then [] else [cur])"
| "splitlines_from cur [x] =
     (if is_linebreak x then [cur] else [cur @ [x]])"
| "splitlines_from cur (x # y # xs) =
     (if x = CHR 0x0D \<and> y = CHR 0x0A then cur # splitlines_from [] xs
      else if is_linebreak x then cur # splitlines_from [] (y # xs)
      else splitlines_from (cur @ [x]) (y # xs))"

definition splitlines :: "string \<Rightarrow> string list" where
  "splitlines s = splitlines_from [] s"

text \<open>\<open>sep.join(xs)\<close>.\<close>

fun join :: "string \<Rightarrow> string list \<Rightarrow> string" where
  "join sep [] = []"
| "join sep [x] = x"
| "join sep (x # y # xs) = x @ sep @ join sep (y # xs)"

section \<open>The fragment of \<open>re\<close> the program uses\<close>

text \<open>
  The three patterns of the program are sequences of literals, single character classes,
  greedy and lazy repetitions of a character class, capturing groups, \<open>$\<close>, and one
  optional non-capturing group. The matcher is a backtracking matcher over that fragment,
  trying alternatives in the order of \<open>re\<close>: a greedy repetition takes a character
  before it tries the rest of the pattern, a lazy one tries the rest first.
\<close>

datatype cls = Space | AnyNoNL | AnyChar | OneOf string

fun in_cls :: "cls \<Rightarrow> char \<Rightarrow> bool" where
  "in_cls Space c = is_space c"
| "in_cls AnyNoNL c = (c \<noteq> CHR 0x0A)"
| "in_cls AnyChar c = True"
| "in_cls (OneOf cs) c = (c \<in> set cs)"

datatype atom = Lit string | One cls | Star cls | Plus cls | Lazy cls
  | Open nat | Close nat | Eos

datatype rx = Atom atom | Opt "atom list"

text \<open>
  A group is recorded as the text that remained when it was opened and the text that
  remained when it was closed.
\<close>

type_synonym caps = "nat \<Rightarrow> (string \<times> string) option"

fun weight :: "rx \<Rightarrow> nat" where
  "weight (Atom (Plus c)) = 3"
| "weight (Atom a) = 1"
| "weight (Opt as) = 3 * length as + 1"

function re_run :: "rx list \<Rightarrow> string \<Rightarrow> caps \<Rightarrow> (caps \<times> string) option" where
  "re_run [] s g = Some (g, s)"
| "re_run (Atom (Lit l) # r) s g =
     (if startswith s l then re_run r (drop (length l) s) g else None)"
| "re_run (Atom (One c) # r) [] g = None"
| "re_run (Atom (One c) # r) (x # xs) g = (if in_cls c x then re_run r xs g else None)"
| "re_run (Atom (Star c) # r) [] g = re_run r [] g"
| "re_run (Atom (Star c) # r) (x # xs) g =
     (if in_cls c x
      then (case re_run (Atom (Star c) # r) xs g of
              Some res \<Rightarrow> Some res
            | None \<Rightarrow> re_run r (x # xs) g)
      else re_run r (x # xs) g)"
| "re_run (Atom (Plus c) # r) s g = re_run (Atom (One c) # Atom (Star c) # r) s g"
| "re_run (Atom (Lazy c) # r) [] g = re_run r [] g"
| "re_run (Atom (Lazy c) # r) (x # xs) g =
     (case re_run r (x # xs) g of
        Some res \<Rightarrow> Some res
      | None \<Rightarrow> (if in_cls c x then re_run (Atom (Lazy c) # r) xs g else None))"
| "re_run (Atom (Open n) # r) s g = re_run r s (g(n \<mapsto> (s, s)))"
| "re_run (Atom (Close n) # r) s g =
     re_run r s (g(n \<mapsto> (case g n of None \<Rightarrow> (s, s) | Some (b, e) \<Rightarrow> (b, s))))"
| "re_run (Atom Eos # r) s g =
     (if s = [] \<or> s = [CHR 0x0A] then re_run r s g else None)"
| "re_run (Opt as # r) s g =
     (case re_run (map Atom as @ r) s g of
        Some res \<Rightarrow> Some res
      | None \<Rightarrow> re_run r s g)"
  by pat_completeness auto
termination
proof -
  have opt: "sum_list (map (weight \<circ> Atom) as) < Suc (3 * length as)" for as :: "atom list"
  proof (induction as)
    case Nil
    show ?case by simp
  next
    case (Cons a as)
    have "weight (Atom a) \<le> 3" by (cases a) simp_all
    with Cons show ?case by simp
  qed
  show ?thesis
    by (relation "measures [\<lambda>(r, s, g). sum_list (map weight r), \<lambda>(r, s, g). length s]")
       (auto simp: opt)
qed

text \<open>\<open>re.match(pattern, s)\<close>: a match at the start of \<open>s\<close>, or \<open>None\<close>.\<close>

definition re_match :: "rx list \<Rightarrow> string \<Rightarrow> (caps \<times> string) option" where
  "re_match p s = re_run p s Map.empty"

text \<open>\<open>match.group(n)\<close>: \<open>None\<close> for a group that took no part in the match.\<close>

definition group :: "caps \<Rightarrow> nat \<Rightarrow> string option" where
  "group g n = (case g n of None \<Rightarrow> None | Some (b, e) \<Rightarrow> Some (take (length b - length e) b))"

text \<open>
  The scan of \<open>re.sub\<close>: the matches of the pattern from left to right, none overlapping
  another, and the characters between them. After an empty match the scan copies one
  character and goes on.
\<close>

datatype piece = Chr char | Match caps

function re_scan :: "rx list \<Rightarrow> string \<Rightarrow> piece list" where
  "re_scan p [] = (case re_match p [] of None \<Rightarrow> [] | Some (g, rest) \<Rightarrow> [Match g])"
| "re_scan p (x # xs) =
     (case re_match p (x # xs) of
        None \<Rightarrow> Chr x # re_scan p xs
      | Some (g, rest) \<Rightarrow>
          (if length rest < length (x # xs) then Match g # re_scan p rest
           else Match g # Chr x # re_scan p xs))"
  by pat_completeness auto
termination
  by (relation "measure (\<lambda>(p, s). length s)") auto

text \<open>
  \<open>r'^---\s*\n(.*?)\n---\s*\n(.*)$'\<close> with \<open>re.DOTALL\<close>, used with \<open>re.match\<close>, which
  anchors the match at the start of the text as \<open>^\<close> does.
\<close>

definition frontmatter_pattern :: "rx list" where
  "frontmatter_pattern =
     [Atom (Lit ''---''), Atom (Star Space), Atom (Lit ''\<newline>''),
      Atom (Open 1), Atom (Lazy AnyChar), Atom (Close 1),
      Atom (Lit ''\<newline>---''), Atom (Star Space), Atom (Lit ''\<newline>''),
      Atom (Open 2), Atom (Star AnyChar), Atom (Close 2), Atom Eos]"

definition quote :: cls where
  "quote = OneOf [CHR 0x22, CHR 0x27]"

text \<open>\<open>r'<template\s+include=["\'](.*?)["\']\s*>'\<close>\<close>

definition include_pattern :: "rx list" where
  "include_pattern =
     [Atom (Lit ''<template''), Atom (Plus Space), Atom (Lit ''include=''), Atom (One quote),
      Atom (Open 1), Atom (Lazy AnyNoNL), Atom (Close 1), Atom (One quote),
      Atom (Star Space), Atom (Lit ''>'')]"

text \<open>\<open>r'<template\s+variable=["\'](.*?)["\'](?:\s+default=["\'](.*?)["\'])?\s*>'\<close>\<close>

definition variable_pattern :: "rx list" where
  "variable_pattern =
     [Atom (Lit ''<template''), Atom (Plus Space), Atom (Lit ''variable=''), Atom (One quote),
      Atom (Open 1), Atom (Lazy AnyNoNL), Atom (Close 1), Atom (One quote),
      Opt [Plus Space, Lit ''default='', One quote, Open 2, Lazy AnyNoNL, Close 2, One quote],
      Atom (Star Space), Atom (Lit ''>'')]"

section \<open>Values, exceptions and the file system\<close>

text \<open>
  A metadata value is a \<open>str\<close>, or another object given by the text \<open>str()\<close> makes of it
  (a date, a number or a list that the YAML parser built).
\<close>

datatype pyval = PStr string | PObj string

fun py_str :: "pyval \<Rightarrow> string" where
  "py_str (PStr s) = s"
| "py_str (PObj r) = r"

type_synonym metadata = "string \<rightharpoonup> pyval"

type_synonym path = "string list"

text \<open>
  The exceptions the program can meet, all subclasses of \<open>Exception\<close>. \<open>RecursionError\<close>
  is what the interpreter raises when calls nest deeper than its recursion limit.
\<close>

datatype exn = RecursionError | FileNotFoundError | IsADirectoryError | NotADirectoryError
  | FileExistsError | UnicodeDecodeError | TypeError | ValueError | OSError

text \<open>What the program prints, one constructor for each \<open>print\<close> of the build.\<close>

datatype msg =
    WarnYaml string
  | WarnIncludeNotFound string
  | WarnLayoutNotFound string path
  | Building
  | Generated path
  | ErrorProcessing path exn
  | CopiedStatic
  | GeneratedSitemap
  | BuildComplete

text \<open>The outcome of a call: the value it returns or the exception it raises, and what it printed.\<close>

type_synonym 'a res = "(exn + 'a) \<times> msg list"

definition res_bind :: "'a res \<Rightarrow> ('a \<Rightarrow> 'b res) \<Rightarrow> 'b res" where
  "res_bind m f =
     (case m of
        (Inl e, lg) \<Rightarrow> (Inl e, lg)
      | (Inr a, lg) \<Rightarrow> (case f a of (r, lg') \<Rightarrow> (r, lg @ lg')))"

text \<open>What a path of the source tree names: a text file, a directory, or a file that is not UTF-8.\<close>

datatype node = File string | Dir | Undecodable

text \<open>\<open>with open(p, 'r', encoding='utf-8') as f: f.read()\<close>\<close>

fun open_read :: "node option \<Rightarrow> exn + string" where
  "open_read None = Inl FileNotFoundError"
| "open_read (Some Dir) = Inl IsADirectoryError"
| "open_read (Some Undecodable) = Inl UnicodeDecodeError"
| "open_read (Some (File text)) = Inr text"

text \<open>
  \<open>yaml.safe_load\<close> is a library outside the program: it is a parameter. It raises a
  \<open>YAMLError\<close> or returns a mapping, or a value that counts as false (\<open>YamlValue None\<close>).
\<close>

datatype yaml_result = YamlError string | YamlValue "metadata option"

text \<open>
  The output tree, with paths relative to the output directory: the text of each file,
  and the directories. The output directory itself is the path \<open>[]\<close>.
\<close>

record outfs =
  out_files :: "path \<rightharpoonup> string"
  out_dirs :: "path set"

text \<open>
  The \<open>SSG\<close> object and its surroundings: \<open>yaml\<close> is \<open>None\<close> when \<open>HAS_YAML\<close> is false;
  \<open>layouts name\<close> is what \<open>layouts_dir / name\<close> names on disk; \<open>files\<close> is the rest of the
  file system; \<open>walk\<close> is what \<open>os.walk(content_dir)\<close> yields (a directory and its file
  names); \<open>sep\<close> is \<open>os.sep\<close>; \<open>today\<close> is \<open>datetime.now().strftime('%Y-%m-%d')\<close>;
  \<open>copy_static\<close> is the copy of the assets and extra directories into the output tree
  (\<open>shutil\<close>, outside the program), which may raise.
\<close>

record env =
  yaml :: "(string \<Rightarrow> yaml_result) option"
  layouts :: "string \<Rightarrow> node option"
  content_dir :: path
  files :: "path \<Rightarrow> node option"
  walk :: "(path \<times> string list) list"
  sep :: string
  recursion_limit :: nat
  today :: string
  copy_static :: "outfs \<Rightarrow> exn + outfs"

section \<open>Front matter\<close>

text \<open>\<open>key, value = line.split(':', 1)\<close> for a line that contains a colon.\<close>

definition split_colon :: "string \<Rightarrow> string \<times> string" where
  "split_colon line =
     (takeWhile (\<lambda>c. c \<noteq> CHR '':'') line, drop 1 (dropWhile (\<lambda>c. c \<noteq> CHR '':'') line))"

text \<open>The manual parser: the loop over \<open>fm_text.splitlines()\<close>.\<close>

fun manual_parse :: "string list \<Rightarrow> metadata \<Rightarrow> metadata" where
  "manual_parse [] md = md"
| "manual_parse (line # rest) md =
     (if CHR '':'' \<in> set line
      then (case split_colon line of (key, val) \<Rightarrow>
              manual_parse rest (md(strip key \<mapsto> PStr (strip val))))
      else manual_parse rest md)"

definition parse_frontmatter :: "env \<Rightarrow> string \<Rightarrow> (metadata \<times> string) \<times> msg list" where
  "parse_frontmatter e content =
     (case re_match frontmatter_pattern content of
        Some (m, rest) \<Rightarrow>
          (let fm_text = (case group m 1 of Some t \<Rightarrow> t | None \<Rightarrow> []);
               body = (case group m 2 of Some t \<Rightarrow> t | None \<Rightarrow> [])
           in (case yaml e of
                 Some safe_load \<Rightarrow>
                   (case safe_load fm_text of
                      YamlError err \<Rightarrow> ((Map.empty, body), [WarnYaml err])
                    | YamlValue None \<Rightarrow> ((Map.empty, body), [])
                    | YamlValue (Some md) \<Rightarrow> ((md, body), []))
               | None \<Rightarrow> ((manual_parse (splitlines fm_text) Map.empty, body), [])))
      | None \<Rightarrow> ((Map.empty, content), []))"

section \<open>Includes and variables\<close>

text \<open>
  \<open>re.sub(pattern, repl, content)\<close> with a function \<open>repl\<close>: the replacement of each match
  is computed in turn, and the first exception ends the substitution.
\<close>

fun sub_pieces :: "(caps \<Rightarrow> string res) \<Rightarrow> piece list \<Rightarrow> string res" where
  "sub_pieces repl [] = (Inr [], [])"
| "sub_pieces repl (Chr c # ps) =
     (case sub_pieces repl ps of
        (Inl e, lg) \<Rightarrow> (Inl e, lg)
      | (Inr out, lg) \<Rightarrow> (Inr (c # out), lg))"
| "sub_pieces repl (Match m # ps) =
     (case repl m of
        (Inl e, lg) \<Rightarrow> (Inl e, lg)
      | (Inr r, lg) \<Rightarrow>
          (case sub_pieces repl ps of
             (Inl e, lg') \<Rightarrow> (Inl e, lg @ lg')
           | (Inr out, lg') \<Rightarrow> (Inr (r @ out), lg @ lg')))"

definition re_sub :: "rx list \<Rightarrow> (caps \<Rightarrow> string res) \<Rightarrow> string \<Rightarrow> string res" where
  "re_sub p repl s = sub_pieces repl (re_scan p s)"

text \<open>
  \<open>process_includes\<close> calls itself through \<open>replace_include\<close>, with nothing in the source
  that bounds the depth. The first argument is the number of nested calls the interpreter
  still allows: with none left the call raises \<open>RecursionError\<close>.
\<close>

fun process_includes :: "nat \<Rightarrow> env \<Rightarrow> string \<Rightarrow> string res" where
  "process_includes 0 e content = (Inl RecursionError, [])"
| "process_includes (Suc depth) e content =
     re_sub include_pattern
       (\<lambda>m. let filename = (case group m 1 of Some t \<Rightarrow> t | None \<Rightarrow> [])
            in (case layouts e filename of
                  Some nd \<Rightarrow>
                    (case open_read (Some nd) of
                       Inl err \<Rightarrow> (Inl err, [])
                     | Inr included_content \<Rightarrow> process_includes depth e included_content)
                | None \<Rightarrow> (Inr [], [WarnIncludeNotFound filename])))
       content"

definition replace_variable :: "metadata \<Rightarrow> caps \<Rightarrow> string" where
  "replace_variable variables m =
     (let var_name = (case group m 1 of Some t \<Rightarrow> t | None \<Rightarrow> []);
          default_val = (case group m 2 of Some t \<Rightarrow> t | None \<Rightarrow> [])
      in (case variables var_name of Some val \<Rightarrow> py_str val | None \<Rightarrow> default_val))"

definition process_variables :: "string \<Rightarrow> metadata \<Rightarrow> string res" where
  "process_variables content variables =
     re_sub variable_pattern (\<lambda>m. (Inr (replace_variable variables m), [])) content"

section \<open>Paths\<close>

text \<open>
  A \<open>Path\<close> is the list of its parts. \<open>str(path)\<close> joins them with \<open>os.sep\<close>.
\<close>

definition path_str :: "env \<Rightarrow> path \<Rightarrow> string" where
  "path_str e p = join (sep e) p"

definition path_name :: "path \<Rightarrow> string" where
  "path_name p = (if p = [] then [] else last p)"

text \<open>\<open>path.relative_to(base)\<close>\<close>

definition relative_to :: "path \<Rightarrow> path \<Rightarrow> exn + path" where
  "relative_to p base =
     (if take (length base) p = base then Inr (drop (length base) p) else Inl ValueError)"

text \<open>
  \<open>PurePath.suffix\<close> of a name: from the last dot on, unless that dot is the first or
  the last character of the name.
\<close>

definition name_suffix :: "string \<Rightarrow> string" where
  "name_suffix name =
     (if CHR ''.'' \<in> set name
      then (let i = length name - length (takeWhile (\<lambda>c. c \<noteq> CHR ''.'') (rev name)) - 1
            in if 0 < i \<and> i < length name - 1 then drop i name else [])
      else [])"

text \<open>\<open>path.with_suffix('')\<close>\<close>

definition with_suffix_empty :: "path \<Rightarrow> exn + path" where
  "with_suffix_empty p =
     (if path_name p = [] then Inl ValueError
      else Inr (butlast p @ [take (length (last p) - length (name_suffix (last p))) (last p)]))"

section \<open>One page\<close>

definition ret :: "'a \<Rightarrow> 'a res" where
  "ret a = (Inr a, [])"

definition lift :: "exn + 'a \<Rightarrow> 'a res" where
  "lift r = (r, [])"

text \<open>A call that cannot raise.\<close>

definition returns :: "'a \<times> msg list \<Rightarrow> 'a res" where
  "returns r = (Inr (fst r), snd r)"

text \<open>The layout step of \<open>build_page\<close>: the new metadata and the new body.\<close>

definition apply_layout :: "env \<Rightarrow> path \<Rightarrow> metadata \<Rightarrow> string \<Rightarrow> (metadata \<times> string) res" where
  "apply_layout e file_path metadata body =
     (case metadata ''layout'' of
        None \<Rightarrow> ret (metadata, body)
      | Some (PObj r) \<Rightarrow> lift (Inl TypeError)
      | Some (PStr layout_name) \<Rightarrow>
          (case layouts e layout_name of
             Some nd \<Rightarrow>
               res_bind (process_includes (recursion_limit e) e body) (\<lambda>body1.
               res_bind (process_variables body1 metadata) (\<lambda>body2.
               res_bind (lift (open_read (Some nd))) (\<lambda>layout_text.
               ret (metadata(''content'' \<mapsto> PStr body2), layout_text))))
           | None \<Rightarrow> (Inr (metadata, body), [WarnLayoutNotFound layout_name file_path])))"

definition output_rel_path :: "path \<Rightarrow> exn + path" where
  "output_rel_path rel_path =
     (if path_name rel_path = ''index.html'' then Inr rel_path
      else (case with_suffix_empty rel_path of
              Inl err \<Rightarrow> Inl err
            | Inr p \<Rightarrow> Inr (p @ [''index.html''])))"

definition build_page :: "env \<Rightarrow> path \<Rightarrow> (path \<times> string \<times> metadata) res" where
  "build_page e file_path =
     res_bind (lift (open_read (files e file_path))) (\<lambda>raw_content.
     res_bind (returns (parse_frontmatter e raw_content)) (\<lambda>(metadata0, body0).
     res_bind (apply_layout e file_path metadata0 body0) (\<lambda>(metadata, body).
     res_bind (process_includes (recursion_limit e) e body) (\<lambda>pass1.
     res_bind (process_variables pass1 metadata) (\<lambda>pass2.
     res_bind (lift (relative_to file_path (content_dir e))) (\<lambda>rel_path.
     res_bind (lift (output_rel_path rel_path)) (\<lambda>out_rel.
     ret (out_rel, pass2, metadata))))))))"

section \<open>The sitemap\<close>

text \<open>The \<open>url_path\<close> of one page in \<open>generate_sitemap\<close>.\<close>

definition sitemap_url :: "env \<Rightarrow> path \<Rightarrow> string" where
  "sitemap_url e p =
     (let url_path = replace [CHR 0x5C] ''/'' (replace ''index.html'' [] (path_str e p))
      in if \<not> startswith url_path ''/'' then ''/'' @ url_path else url_path)"



section \<open>The output tree\<close>





section \<open>The site\<close>









section \<open>The watch mode\<close>

text \<open>
  \<open>SSGEventHandler\<close>: its field \<open>last_build\<close>, a value of \<open>time.time()\<close>, and a file
  system event. Times are real numbers of seconds.
\<close>

record handler =
  last_build :: real

record fs_event =
  is_directory :: bool
  src_path :: string

datatype reaction = Ignored | Rebuilt | RebuildRaised exn

text \<open>
  \<open>on_any_event\<close>, where \<open>now\<close> is what \<open>time.time()\<close> returns in the handler and
  \<open>outcome\<close> is the exception \<open>self.ssg.build()\<close> raises when it is called, if any.
\<close>

definition on_any_event :: "handler \<Rightarrow> fs_event \<Rightarrow> real \<Rightarrow> exn option \<Rightarrow> handler \<times> reaction" where
  "on_any_event h event now outcome =
     (if is_directory event then (h, Ignored)
      else if contains ''_output'' (src_path event) then (h, Ignored)
      else if now - last_build h < 1 then (h, Ignored)
      else (case outcome of
              Some err \<Rightarrow> (h, RebuildRaised err)
            | None \<Rightarrow> (h\<lparr>last_build := now\<rparr>, Rebuilt)))"

text \<open>The handler as \<open>__init__\<close> leaves it.\<close>

definition new_handler :: handler where
  "new_handler = \<lparr>last_build = 0\<rparr>"

text \<open>The handler run over a sequence of events, and the number of builds it started.\<close>

fun run_events :: "handler \<Rightarrow> (fs_event \<times> real \<times> exn option) list \<Rightarrow> reaction list" where
  "run_events h [] = []"
| "run_events h ((event, now, outcome) # rest) =
     (case on_any_event h event now outcome of
        (h', r) \<Rightarrow> r # run_events h' rest)"

definition rebuilds :: "reaction list \<Rightarrow> nat" where
  "rebuilds rs = length (filter (\<lambda>r. r \<noteq> Ignored) rs)"

section \<open>Words of the specification\<close>

text \<open>\<open>re.search(pattern, s)\<close>: the leftmost match, or \<open>None\<close>.\<close>

fun re_search :: "rx list \<Rightarrow> string \<Rightarrow> (caps \<times> string) option" where
  "re_search p [] = re_match p []"
| "re_search p (x # xs) =
     (case re_match p (x # xs) of
        Some res \<Rightarrow> Some res
      | None \<Rightarrow> re_search p xs)"

text \<open>A document with no include directive: the include pattern matches nowhere in it.\<close>

definition include_free :: "string \<Rightarrow> bool" where
  "include_free content = (re_search include_pattern content = None)"

text \<open>The lines of a text, as \<open>text.split('\n')\<close> gives them.\<close>

fun split_nl :: "string \<Rightarrow> string list" where
  "split_nl [] = [[]]"
| "split_nl (x # xs) =
     (if x = CHR 0x0A then [] # split_nl xs
      else (case split_nl xs of
              [] \<Rightarrow> [[x]]
            | l # ls \<Rightarrow> (x # l) # ls))"

text \<open>A front-matter delimiter line: three dashes, then nothing but white space.\<close>

definition delimiter_line :: "string \<Rightarrow> bool" where
  "delimiter_line l = (startswith l ''---'' \<and> list_all is_space (drop 3 l))"

definition no_delimiter_lines :: "string \<Rightarrow> bool" where
  "no_delimiter_lines text = (\<not> list_ex delimiter_line (split_nl text))"

section \<open>Example sites\<close>

text \<open>
  A site with one page, \<open>content/hello.html\<close>, that names the layout \<open>base.html\<close>; the
  front matter is read by the manual parser.
\<close>

definition hello_env :: env where
  \<open>hello_env =
     \<lparr>yaml = None,
      layouts = (\<lambda>name. if name = ''base.html''
                  then Some (File ''<template variable="content"> - <template variable="title">'')
                  else None),
      content_dir = [''site'', ''content''],
      files = (\<lambda>p. if p = [''site'', ''content'', ''hello.html'']
                then Some (File ''---\<newline>layout: base.html\<newline>title: Hi\<newline>---\<newline>Hello'')
                else None),
      walk = [([''site'', ''content''], [''hello.html''])],
      sep = ''/'',
      recursion_limit = 300,
      today = ''2024-01-01'',
      copy_static = Inr\<rparr>\<close>

text \<open>The same site where a YAML parser is installed and reads the same front matter.\<close>

definition hello_yaml_env :: env where
  "hello_yaml_env =
     hello_env\<lparr>yaml := Some (\<lambda>fm_text.
        YamlValue (Some [''layout'' \<mapsto> PStr ''base.html'', ''title'' \<mapsto> PStr ''Hi'']))\<rparr>"

text \<open>A page body with a variable directive and a stray tag, and no include directive.\<close>

definition plain_body :: string where
  \<open>plain_body = ''<p><template variable="title"> by <template author></p>''\<close>





text \<open>File system events: on a page, on a directory, and on a page whose name has \<open>_output\<close> in it.\<close>

definition page_event :: fs_event where
  "page_event = \<lparr>is_directory = False, src_path = ''/site/content/index.html''\<rparr>"

definition dir_event :: fs_event where
  "dir_event = \<lparr>is_directory = True, src_path = ''/site/content/blog''\<rparr>"

definition draft_event :: fs_event where
  "draft_event = \<lparr>is_directory = False, src_path = ''/site/content/my_output.html''\<rparr>"





section \<open>The matcher\<close>

lemma startswith_append [simp]: "startswith (l @ t) l"
  by (simp add: startswith_def)

lemma startswithD: "startswith s l \<Longrightarrow> s = l @ drop (length l) s"
  by (metis append_take_drop_id startswith_def)


lemma re_run_Lit_Some:
  assumes "re_run (Atom (Lit l) # r) s g = Some res"
  obtains t where "s = l @ t" and "re_run r t g = Some res"
  using assms startswithD [of s l] by (auto split: if_splits)

lemma re_run_Star_Some:
  assumes "re_run (Atom (Star c) # r) s g = Some res"
  obtains w t where "s = w @ t" and "list_all (in_cls c) w" and "re_run r t g = Some res"
proof -
  have "\<exists>w t. s = w @ t \<and> list_all (in_cls c) w \<and> re_run r t g = Some res"
    using assms
  proof (induction s)
    case Nil
    then show ?case by simp
  next
    case (Cons x xs)
    show ?case
    proof (cases "in_cls c x \<and> re_run (Atom (Star c) # r) xs g \<noteq> None")
      case True
      with Cons.prems have "re_run (Atom (Star c) # r) xs g = Some res"
        by (auto split: option.splits)
      from Cons.IH [OF this] obtain w t
        where "xs = w @ t" "list_all (in_cls c) w" "re_run r t g = Some res"
        by blast
      with True have "x # xs = (x # w) @ t \<and> list_all (in_cls c) (x # w) \<and> re_run r t g = Some res"
        by simp
      then show ?thesis by blast
    next
      case False
      with Cons.prems have "re_run r (x # xs) g = Some res"
        by (auto split: option.splits if_splits)
      then have "x # xs = [] @ (x # xs) \<and> list_all (in_cls c) [] \<and> re_run r (x # xs) g = Some res"
        by simp
      then show ?thesis by blast
    qed
  qed
  with that show thesis by blast
qed

lemma re_run_Lazy_Some:
  assumes "re_run (Atom (Lazy c) # r) s g = Some res"
  obtains w t where "s = w @ t" and "list_all (in_cls c) w" and "re_run r t g = Some res"
proof -
  have "\<exists>w t. s = w @ t \<and> list_all (in_cls c) w \<and> re_run r t g = Some res"
    using assms
  proof (induction s)
    case Nil
    then show ?case by simp
  next
    case (Cons x xs)
    show ?case
    proof (cases "re_run r (x # xs) g")
      case (Some a)
      with Cons.prems have "re_run r (x # xs) g = Some res"
        by simp
      then have "x # xs = [] @ (x # xs) \<and> list_all (in_cls c) [] \<and> re_run r (x # xs) g = Some res"
        by simp
      then show ?thesis by blast
    next
      case None
      with Cons.prems have x: "in_cls c x" and "re_run (Atom (Lazy c) # r) xs g = Some res"
        by (auto split: if_splits)
      from Cons.IH [OF this(2)] obtain w t
        where "xs = w @ t" "list_all (in_cls c) w" "re_run r t g = Some res"
        by blast
      with x have "x # xs = (x # w) @ t \<and> list_all (in_cls c) (x # w) \<and> re_run r t g = Some res"
        by simp
      then show ?thesis by blast
    qed
  qed
  with that show thesis by blast
qed

text \<open>The shape of a text that the front-matter pattern matches.\<close>

lemma frontmatter_match_shape:
  assumes "re_match frontmatter_pattern content = Some res"
  obtains w u w' t where
    "content = ''---'' @ w @ ''\<newline>'' @ u @ ''\<newline>---'' @ w' @ ''\<newline>'' @ t"
    and "list_all is_space w" and "list_all is_space w'"
proof -
  note assms [unfolded re_match_def frontmatter_pattern_def]
  then obtain s1 where s1: "content = ''---'' @ s1"
    and r1: "re_run [Atom (Star Space), Atom (Lit ''\<newline>''),
      Atom (Open 1), Atom (Lazy AnyChar), Atom (Close 1),
      Atom (Lit ''\<newline>---''), Atom (Star Space), Atom (Lit ''\<newline>''),
      Atom (Open 2), Atom (Star AnyChar), Atom (Close 2), Atom Eos] s1 Map.empty = Some res"
    by (rule re_run_Lit_Some)
  from r1 obtain w s2 where s2: "s1 = w @ s2" and w: "list_all (in_cls Space) w"
    and r2: "re_run [Atom (Lit ''\<newline>''),
      Atom (Open 1), Atom (Lazy AnyChar), Atom (Close 1),
      Atom (Lit ''\<newline>---''), Atom (Star Space), Atom (Lit ''\<newline>''),
      Atom (Open 2), Atom (Star AnyChar), Atom (Close 2), Atom Eos] s2 Map.empty = Some res"
    by (rule re_run_Star_Some)
  from r2 obtain s3 where s3: "s2 = ''\<newline>'' @ s3"
    and r3: "re_run [Atom (Open 1), Atom (Lazy AnyChar), Atom (Close 1),
      Atom (Lit ''\<newline>---''), Atom (Star Space), Atom (Lit ''\<newline>''),
      Atom (Open 2), Atom (Star AnyChar), Atom (Close 2), Atom Eos] s3 Map.empty = Some res"
    by (rule re_run_Lit_Some)
  from r3 have "re_run [Atom (Lazy AnyChar), Atom (Close 1),
      Atom (Lit ''\<newline>---''), Atom (Star Space), Atom (Lit ''\<newline>''),
      Atom (Open 2), Atom (Star AnyChar), Atom (Close 2), Atom Eos] s3 [1 \<mapsto> (s3, s3)] = Some res"
    by simp
  then obtain u s4 where s4: "s3 = u @ s4"
    and r4: "re_run [Atom (Close 1),
      Atom (Lit ''\<newline>---''), Atom (Star Space), Atom (Lit ''\<newline>''),
      Atom (Open 2), Atom (Star AnyChar), Atom (Close 2), Atom Eos] s4 [1 \<mapsto> (s3, s3)] = Some res"
    by (rule re_run_Lazy_Some)
  from r4 have "re_run [Atom (Lit ''\<newline>---''), Atom (Star Space), Atom (Lit ''\<newline>''),
      Atom (Open 2), Atom (Star AnyChar), Atom (Close 2), Atom Eos] s4 [1 \<mapsto> (s3, s4)] = Some res"
    by simp
  then obtain s5 where s5: "s4 = ''\<newline>---'' @ s5"
    and r5: "re_run [Atom (Star Space), Atom (Lit ''\<newline>''),
      Atom (Open 2), Atom (Star AnyChar), Atom (Close 2), Atom Eos] s5 [1 \<mapsto> (s3, s4)] = Some res"
    by (rule re_run_Lit_Some)
  from r5 obtain w' s6 where s6: "s5 = w' @ s6" and w': "list_all (in_cls Space) w'"
    and r6: "re_run [Atom (Lit ''\<newline>''),
      Atom (Open 2), Atom (Star AnyChar), Atom (Close 2), Atom Eos] s6 [1 \<mapsto> (s3, s4)] = Some res"
    by (rule re_run_Star_Some)
  from r6 obtain t where t: "s6 = ''\<newline>'' @ t"
    by (rule re_run_Lit_Some)
  have "content = ''---'' @ w @ ''\<newline>'' @ u @ ''\<newline>---'' @ w' @ ''\<newline>'' @ t"
    by (simp only: s1 s2 s3 s4 s5 s6 t)
  moreover have "list_all is_space w" "list_all is_space w'"
    using w w' by (simp_all add: list_all_iff)
  ultimately show thesis
    by (rule that)
qed

section \<open>Lines\<close>

lemma split_nl_not_Nil [simp]: "split_nl s \<noteq> []"
  by (induction s) (auto split: list.splits)

lemma split_nl_append:
  "split_nl (a @ CHR 0x0A # b) = split_nl a @ split_nl b"
proof (induction a)
  case Nil
  show ?case by simp
next
  case (Cons x a)
  obtain l ls where "split_nl a = l # ls"
    by (cases "split_nl a") simp_all
  with Cons show ?case
    by simp
qed

lemma split_nl_no_newline: "CHR 0x0A \<notin> set a \<Longrightarrow> split_nl a = [a]"
  by (induction a) auto

text \<open>A text that starts with three dashes, white space and a newline starts with a delimiter line.\<close>

lemma delimiter_first_line:
  assumes "list_all is_space w"
  obtains a t' where "''---'' @ w @ CHR 0x0A # t = a @ CHR 0x0A # t'"
    and "CHR 0x0A \<notin> set a" and "delimiter_line a"
proof -
  let ?w1 = "takeWhile (\<lambda>c. c \<noteq> CHR 0x0A) w" and ?w2 = "dropWhile (\<lambda>c. c \<noteq> CHR 0x0A) w"
  have w: "w = ?w1 @ ?w2"
    by simp
  have sp: "list_all is_space ?w1"
    using assms by (metis list_all_append w)
  have nl: "CHR 0x0A \<notin> set (''---'' @ ?w1)"
    by (auto dest: set_takeWhileD)
  have dl: "delimiter_line (''---'' @ ?w1)"
    using sp by (simp add: delimiter_line_def startswith_def)
  show thesis
  proof (cases ?w2)
    case Nil
    with w have "w = ?w1" by simp
    then have "''---'' @ w @ CHR 0x0A # t = (''---'' @ ?w1) @ CHR 0x0A # t"
      by simp
    then show thesis using nl dl by (rule that)
  next
    case (Cons y ys)
    then have "y = CHR 0x0A"
      by (metis (mono_tags, lifting) hd_dropWhile list.sel(1) list.distinct(1))
    with Cons w have "w = ?w1 @ CHR 0x0A # ys" by simp
    then have "''---'' @ w @ CHR 0x0A # t = (''---'' @ ?w1) @ CHR 0x0A # (ys @ CHR 0x0A # t)"
      by (metis append.assoc append_Cons)
    then show thesis using nl dl by (rule that)
  qed
qed

lemma white_line_not_delimiter: "list_all is_space l \<Longrightarrow> \<not> delimiter_line l"
  by (cases l) (auto simp: delimiter_line_def startswith_def is_space_def)

lemma white_lines: "list_all is_space w \<Longrightarrow> l \<in> set (split_nl w) \<Longrightarrow> list_all is_space l"
  by (induction w arbitrary: l) (auto split: if_splits list.splits)

section \<open>Substitution\<close>

lemma re_search_None_scan: "re_search p s = None \<Longrightarrow> re_scan p s = map Chr s"
  by (induction s) (auto split: option.splits)

lemma sub_pieces_Chr_append:
  "sub_pieces repl (map Chr pre @ ps) =
     (case sub_pieces repl ps of
        (Inl err, lg) \<Rightarrow> (Inl err, lg)
      | (Inr out, lg) \<Rightarrow> (Inr (pre @ out), lg))"
  by (induction pre) (auto split: prod.splits sum.splits)

lemma sub_pieces_Chr: "sub_pieces repl (map Chr s) = (Inr s, [])"
  using sub_pieces_Chr_append [of repl s "[]"] by simp

lemma re_sub_no_match: "re_search p s = None \<Longrightarrow> re_sub p repl s = (Inr s, [])"
  by (simp add: re_sub_def re_search_None_scan sub_pieces_Chr)

section \<open>Matching an include directive\<close>



lemma is_space_not_letter [simp]:
  "\<not> is_space CHR ''i''" "\<not> is_space CHR ''>''" "\<not> is_space CHR ''-''"
  by (simp_all add: is_space_def)






section \<open>The walk over the content files\<close>


















section \<open>Sums\<close>


section \<open>The depth of includes\<close>



section \<open>Outcomes of calls\<close>

lemma res_bind_Inr_iff:
  "res_bind m f = (Inr b, lg) \<longleftrightarrow>
     (\<exists>a lg1 lg2. m = (Inr a, lg1) \<and> f a = (Inr b, lg2) \<and> lg = lg1 @ lg2)"
  by (auto simp: res_bind_def split: prod.splits sum.splits)

section \<open>Output paths\<close>

lemma name_suffix_html:
  assumes "name \<noteq> []"
  shows "name_suffix (name @ ''.html'') = ''.html''"
  using assms by (simp add: name_suffix_def Let_def)

lemma output_rel_path_index:
  "path_name rel = ''index.html'' \<Longrightarrow> output_rel_path rel = Inr rel"
  by (simp add: output_rel_path_def)

lemma output_rel_path_pretty:
  assumes "name \<noteq> []" and "name \<noteq> ''index''"
  shows "output_rel_path (dir @ [name @ ''.html'']) = Inr (dir @ [name, ''index.html''])"
  using assms
  by (simp add: output_rel_path_def path_name_def with_suffix_empty_def name_suffix_html)

lemma build_page_path:
  assumes "build_page e file_path = (Inr (out, html, meta), lg)"
  shows "\<exists>rel. relative_to file_path (content_dir e) = Inr rel \<and> output_rel_path rel = Inr out"
  using assms
  by (auto simp: build_page_def res_bind_Inr_iff lift_def ret_def returns_def case_prod_beta)

text \<open>
  Claim C3. The path \<open>build_page\<close> returns for the content file \<open>content_dir / rel\<close> is
  \<open>rel\<close> itself when the file is named \<open>index.html\<close>, and \<open>dir/name/index.html\<close> for any
  other file \<open>dir/name.html\<close> (with a name that is not empty). So \<open>index.html\<close> stays
  \<open>index.html\<close>, \<open>blog/index.html\<close> stays \<open>blog/index.html\<close>, and \<open>blog/post1.html\<close>
  becomes \<open>blog/post1/index.html\<close>.
\<close>

theorem build_page_output_path:
  assumes "build_page e (content_dir e @ rel) = (Inr (out, html, meta), lg)"
  shows "(path_name rel = ''index.html'' \<longrightarrow> out = rel) \<and>
         (\<forall>dir name. rel = dir @ [name @ ''.html''] \<and> name \<noteq> [] \<and> name \<noteq> ''index''
            \<longrightarrow> out = dir @ [name, ''index.html'']) \<and>
         (rel = [''index.html''] \<longrightarrow> out = [''index.html'']) \<and>
         (rel = [''blog'', ''index.html''] \<longrightarrow> out = [''blog'', ''index.html'']) \<and>
         (rel = [''blog'', ''post1.html''] \<longrightarrow> out = [''blog'', ''post1'', ''index.html''])"
proof -
  from build_page_path [OF assms]
  have out: "output_rel_path rel = Inr out"
    by (auto simp: relative_to_def)
  have index: "out = rel" if "path_name rel = ''index.html''"
    using out output_rel_path_index [OF that] by simp
  have pretty: "out = dir @ [name, ''index.html'']"
    if "rel = dir @ [name @ ''.html'']" "name \<noteq> []" "name \<noteq> ''index''" for dir name
    using out output_rel_path_pretty [of name dir] that by simp
  have post1: "out = [''blog'', ''post1'', ''index.html'']" if "rel = [''blog'', ''post1.html'']"
    using pretty [of "[''blog'']" "''post1''"] that by simp
  show ?thesis
    using index pretty post1 by (auto simp: path_name_def)
qed

theorem build_page_output_path_witness:
  "\<exists>html meta lg.
     build_page hello_env (content_dir hello_env @ [''hello.html''])
       = (Inr ([''hello'', ''index.html''], html, meta), lg)"
proof -
  let ?r = "build_page hello_env (content_dir hello_env @ [''hello.html''])"
  have c: "case ?r of (Inr (p, h, m), lg) \<Rightarrow> True | (Inl err, lg) \<Rightarrow> False"
    by code_simp
  obtain x lg where r: "?r = (x, lg)"
    by (cases ?r)
  from c r obtain y where x: "x = Inr y"
    by (cases x) simp_all
  obtain out html meta where y: "y = (out, html, meta)"
    by (cases y)
  have b: "?r = (Inr (out, html, meta), lg)"
    by (simp only: r x y)
  have rel: "[''hello.html''] = [] @ [''hello'' @ ''.html''] \<and> ''hello'' \<noteq> [] \<and> ''hello'' \<noteq> ''index''"
    by simp
  from build_page_output_path [OF b, THEN conjunct2, THEN conjunct1, rule_format, OF rel]
  have "out = [''hello'', ''index.html'']"
    by simp
  with b show ?thesis
    by (intro exI) (simp only:)
qed

section \<open>The layout example\<close>

text \<open>
  Claim C4. The page with the front matter \<open>layout: base.html\<close>, \<open>title: Hi\<close> and the
  body \<open>Hello\<close>, under the layout
  \<open><template variable="content"> - <template variable="title">\<close>, is rendered as
  \<open>Hello - Hi\<close>, with either parser of the front matter. On the way the layout step
  stores the processed body under \<open>content\<close> and makes the text of the layout the body.
\<close>

theorem build_page_layout_example:
  \<open>(case parse_frontmatter hello_env
            ''---\<newline>layout: base.html\<newline>title: Hi\<newline>---\<newline>Hello'' of
      ((metadata, body), lg) \<Rightarrow>
        metadata ''layout'' = Some (PStr ''base.html'') \<and> metadata ''title'' = Some (PStr ''Hi'')
        \<and> metadata ''content'' = None \<and> body = ''Hello'')
   \<and> (case apply_layout hello_env [''site'', ''content'', ''hello.html'']
              [''layout'' \<mapsto> PStr ''base.html'', ''title'' \<mapsto> PStr ''Hi''] ''Hello'' of
        (Inr (metadata', body'), lg) \<Rightarrow>
          metadata' ''content'' = Some (PStr ''Hello'')
          \<and> metadata' ''title'' = Some (PStr ''Hi'')
          \<and> body' = ''<template variable="content"> - <template variable="title">''
      | (Inl err, lg) \<Rightarrow> False)
   \<and> (case build_page hello_env [''site'', ''content'', ''hello.html''] of
        (Inr (out, html, meta), lg) \<Rightarrow> html = ''Hello - Hi'' \<and> lg = []
      | (Inl err, lg) \<Rightarrow> False)
   \<and> (case build_page hello_yaml_env [''site'', ''content'', ''hello.html''] of
        (Inr (out, html, meta), lg) \<Rightarrow> html = ''Hello - Hi'' \<and> lg = []
      | (Inl err, lg) \<Rightarrow> False)\<close>
proof (intro conjI)
qed code_simp+

section \<open>Sitemap URLs\<close>

text \<open>
  Claim C2. The URL of a page in the sitemap is its output path without the trailing
  \<open>index.html\<close>, and an \<open>index.html\<close> earlier in the path stays. The code removes every
  occurrence: the content file \<open>old-index.html/page.html\<close> is written to
  \<open>old-index.html/page/index.html\<close>, and its URL in the sitemap is \<open>/old-/page/\<close>, not
  \<open>/old-index.html/page/\<close>.
\<close>

theorem sitemap_url_removes_every_index_html:
  "output_rel_path [''old-index.html'', ''page.html'']
     = Inr [''old-index.html'', ''page'', ''index.html'']
   \<and> sitemap_url hello_env [''old-index.html'', ''page'', ''index.html''] = ''/old-/page/''
   \<and> sitemap_url hello_env [''old-index.html'', ''page'', ''index.html'']
       \<noteq> ''/old-index.html/page/''"
  by code_simp

section \<open>Front matter without delimiters\<close>

lemma no_delimiter_no_match:
  assumes "no_delimiter_lines content"
  shows "re_match frontmatter_pattern content = None"
proof (rule ccontr)
  assume "re_match frontmatter_pattern content \<noteq> None"
  then obtain res where "re_match frontmatter_pattern content = Some res"
    by blast
  then obtain w u w' t
    where c: "content = ''---'' @ w @ ''\<newline>'' @ u @ ''\<newline>---'' @ w' @ ''\<newline>'' @ t"
      and w: "list_all is_space w"
    by (rule frontmatter_match_shape)
  from w obtain a t'
    where "''---'' @ w @ CHR 0x0A # (u @ ''\<newline>---'' @ w' @ ''\<newline>'' @ t) = a @ CHR 0x0A # t'"
      and "CHR 0x0A \<notin> set a" and dl: "delimiter_line a"
    by (rule delimiter_first_line)
  with c have "content = a @ CHR 0x0A # t'"
    by simp
  then have "a \<in> set (split_nl content)"
    using \<open>CHR 0x0A \<notin> set a\<close> by (simp add: split_nl_append split_nl_no_newline)
  with dl assms show False
    by (auto simp: no_delimiter_lines_def list_ex_iff)
qed

text \<open>
  Claim C5. A text with no front-matter delimiter line, that is, no line made of three
  dashes and white space, is returned whole as the body, with empty metadata, nothing
  printed and nothing raised, whichever parser is installed.
\<close>

theorem parse_frontmatter_no_delimiters:
  assumes "no_delimiter_lines content"
  shows "parse_frontmatter e content = ((Map.empty, content), [])"
  using no_delimiter_no_match [OF assms] by (simp add: parse_frontmatter_def)

theorem parse_frontmatter_no_delimiters_witness:
  "no_delimiter_lines ''<h1>Title</h1>\<newline>--- not a delimiter\<newline><p>text</p>\<newline>''
   \<and> parse_frontmatter hello_env ''<h1>Title</h1>\<newline>--- not a delimiter\<newline><p>text</p>\<newline>''
       = ((Map.empty, ''<h1>Title</h1>\<newline>--- not a delimiter\<newline><p>text</p>\<newline>''), [])"
proof -
  have h: "no_delimiter_lines ''<h1>Title</h1>\<newline>--- not a delimiter\<newline><p>text</p>\<newline>''"
    by code_simp
  from h parse_frontmatter_no_delimiters [OF h, of hello_env] show ?thesis
    by (rule conjI)
qed

section \<open>A closing delimiter without a newline\<close>

lemma middle_of_lines:
  assumes "x # F @ [z] = X @ d # Y" and "X \<noteq> []" and "Y \<noteq> []"
  shows "d \<in> set F"
proof -
  from assms(2) obtain x' X' where X: "X = x' # X'"
    by (cases X) auto
  from assms(3) obtain Y' y where Y: "Y = Y' @ [y]"
    by (cases Y rule: rev_cases) auto
  from assms(1) X Y have "F @ [z] = (X' @ d # Y') @ [y]"
    by simp
  then have "F = X' @ d # Y'"
    by (simp only: append1_eq_conv)
  then show ?thesis
    by simp
qed

text \<open>
  Claim C10. A text that opens with a \<open>---\<close> line, goes on with a metadata block that
  has no delimiter line of its own, and ends with a \<open>---\<close> line that no newline follows,
  is not taken as front matter: the metadata is empty and the body is the whole text.
\<close>

theorem parse_frontmatter_unterminated_closing:
  assumes "list_all is_space ws1" and "CHR 0x0A \<notin> set ws1"
    and "no_delimiter_lines fm"
    and "list_all is_space ws2" and "CHR 0x0A \<notin> set ws2"
    and "content = ''---'' @ ws1 @ ''\<newline>'' @ fm @ ''\<newline>---'' @ ws2"
  shows "parse_frontmatter e content = ((Map.empty, content), [])"
proof -
  have "re_match frontmatter_pattern content = None"
  proof (rule ccontr)
    assume "re_match frontmatter_pattern content \<noteq> None"
    then obtain res where "re_match frontmatter_pattern content = Some res"
      by blast
    then obtain w u w' t
      where c: "content = ''---'' @ w @ ''\<newline>'' @ u @ ''\<newline>---'' @ w' @ ''\<newline>'' @ t"
        and w: "list_all is_space w" and w': "list_all is_space w'"
      by (rule frontmatter_match_shape)
    from w' obtain a t'
      where a: "''---'' @ w' @ CHR 0x0A # t = a @ CHR 0x0A # t'"
        and "CHR 0x0A \<notin> set a" and dl: "delimiter_line a"
      by (rule delimiter_first_line)
    have "ws1 @ CHR 0x0A # fm @ CHR 0x0A # (''---'' @ ws2)
            = w @ CHR 0x0A # u @ CHR 0x0A # (''---'' @ w' @ CHR 0x0A # t)"
      using c assms(6) by simp
    then have "split_nl (ws1 @ CHR 0x0A # fm @ CHR 0x0A # (''---'' @ ws2))
            = split_nl (w @ CHR 0x0A # u @ CHR 0x0A # (a @ CHR 0x0A # t'))"
      using a by simp
    then have "split_nl ws1 @ split_nl fm @ split_nl (''---'' @ ws2)
            = split_nl w @ split_nl u @ split_nl a @ split_nl t'"
      by (simp only: split_nl_append)
    moreover have "split_nl ws1 = [ws1]" "split_nl (''---'' @ ws2) = [''---'' @ ws2]"
        "split_nl a = [a]"
      using assms(2,5) \<open>CHR 0x0A \<notin> set a\<close> by (simp_all add: split_nl_no_newline)
    ultimately have "ws1 # split_nl fm @ [''---'' @ ws2] = (split_nl w @ split_nl u) @ a # split_nl t'"
      by simp
    then have "a \<in> set (split_nl fm)"
      by (rule middle_of_lines) simp_all
    with dl assms(3) show False
      by (auto simp: no_delimiter_lines_def list_ex_iff)
  qed
  then show ?thesis
    by (simp add: parse_frontmatter_def)
qed

theorem parse_frontmatter_unterminated_closing_witness:
  "list_all is_space '' '' \<and> CHR 0x0A \<notin> set '' ''
   \<and> no_delimiter_lines ''layout: base.html\<newline>title: Hi''
   \<and> list_all is_space [] \<and> CHR 0x0A \<notin> set []
   \<and> parse_frontmatter hello_env ''--- \<newline>layout: base.html\<newline>title: Hi\<newline>---''
       = ((Map.empty, ''--- \<newline>layout: base.html\<newline>title: Hi\<newline>---''), [])"
proof -
  have h1: "list_all is_space '' ''" and h2: "CHR 0x0A \<notin> set '' ''"
    and h3: "no_delimiter_lines ''layout: base.html\<newline>title: Hi''"
    and h4: "list_all is_space []" and h5: "CHR 0x0A \<notin> set []"
    by code_simp+
  have h6: "''--- \<newline>layout: base.html\<newline>title: Hi\<newline>---''
      = ''---'' @ '' '' @ ''\<newline>'' @ ''layout: base.html\<newline>title: Hi'' @ ''\<newline>---'' @ []"
    by simp
  from parse_frontmatter_unterminated_closing [OF h1 h2 h3 h4 h5 h6, of hello_env]
  show ?thesis
    using h1 h2 h3 by simp
qed

section \<open>Documents without includes\<close>

text \<open>
  Claim C9. On a document with no include directive, expanding the includes of the
  expansion gives the expansion again; the expansion is the document itself as soon as
  the interpreter allows one call.
\<close>

theorem process_includes_idempotent:
  assumes "include_free content"
  shows "res_bind (process_includes depth e content) (process_includes depth e)
           = process_includes depth e content
         \<and> (0 < depth \<longrightarrow> process_includes depth e content = (Inr content, []))"
proof (cases depth)
  case 0
  then show ?thesis
    by (simp add: res_bind_def)
next
  case (Suc d)
  from assms have "process_includes (Suc d) e content = (Inr content, [])"
    by (simp add: include_free_def re_sub_no_match)
  with Suc show ?thesis
    by (simp add: res_bind_def)
qed

theorem process_includes_idempotent_witness:
  "include_free plain_body
   \<and> res_bind (process_includes 300 hello_env plain_body) (process_includes 300 hello_env)
       = (Inr plain_body, [])"
proof -
  have h: "include_free plain_body"
    by code_simp
  note t = process_includes_idempotent [OF h, of 300 hello_env]
  from t have once: "process_includes 300 hello_env plain_body = (Inr plain_body, [])"
    by simp
  from t have "res_bind (process_includes 300 hello_env plain_body) (process_includes 300 hello_env)
      = process_includes 300 hello_env plain_body"
    by (rule conjunct1)
  with once h show ?thesis
    by simp
qed

section \<open>A missing include\<close>



section \<open>Debounce\<close>

text \<open>
  Claim C8, as stated: any two events outside the output directory with handler times
  less than one second apart start exactly one rebuild. It fails in three ways: when the
  handler built less than a second before the first event, both are ignored; directory
  events are always ignored; and so are events on a path that has \<open>_output\<close> in it,
  wherever it lies.
\<close>

theorem debounce_counterexample:
  "run_events new_handler
     [(page_event, 1000, None), (page_event, 1000.2, None), (page_event, 1000.5, None)]
     = [Rebuilt, Ignored, Ignored]
   \<and> rebuilds (run_events \<lparr>last_build = 1000\<rparr>
        [(page_event, 1000.2, None), (page_event, 1000.5, None)]) = 0
   \<and> rebuilds (run_events new_handler [(dir_event, 1000, None), (dir_event, 1000.5, None)]) = 0
   \<and> rebuilds (run_events new_handler [(draft_event, 1000, None), (draft_event, 1000.5, None)]) = 0"
  by (simp add: on_any_event_def new_handler_def rebuilds_def page_event_def dir_event_def
      draft_event_def startswith_def)

text \<open>
  Claim C8, amended. Two events on files whose paths do not have \<open>_output\<close> in them, the
  first at least one second after the last build the handler started (and its build
  returns), the second less than one second after the first: the first starts a rebuild,
  the second is ignored, so there is exactly one rebuild.
\<close>

theorem debounce_two_events:
  assumes "\<not> is_directory e1" and "\<not> is_directory e2"
    and "\<not> contains ''_output'' (src_path e1)" and "\<not> contains ''_output'' (src_path e2)"
    and "1 \<le> t1 - last_build h" and "t2 - t1 < 1"
  shows "run_events h [(e1, t1, None), (e2, t2, outcome)] = [Rebuilt, Ignored]
         \<and> rebuilds (run_events h [(e1, t1, None), (e2, t2, outcome)]) = 1"
  using assms by (simp add: on_any_event_def rebuilds_def)

theorem debounce_two_events_witness:
  "\<not> is_directory page_event \<and> \<not> contains ''_output'' (src_path page_event)
   \<and> 1 \<le> 1000 - last_build new_handler \<and> (1000.9 :: real) - 1000 < 1
   \<and> run_events new_handler [(page_event, 1000, None), (page_event, 1000.9, None)]
       = [Rebuilt, Ignored]"
proof -
  have h1: "\<not> is_directory page_event"
    and h2: "\<not> contains ''_output'' (src_path page_event)"
    and h3: "1 \<le> 1000 - last_build new_handler" and h4: "(1000.9 :: real) - 1000 < 1"
    by (simp_all add: page_event_def new_handler_def startswith_def)
  from debounce_two_events [OF h1 h1 h2 h2 h3 h4, of None] h1 h2 h3 h4 show ?thesis
    by blast
qed

section \<open>A file that cannot be built\<close>



section \<open>The depth of includes\<close>




end
